theory Spec2Isabelle
  imports Complex_Main
begin

section \<open>Constants of \<open>input-consts.ts\<close>\<close>

text \<open>
  The direction constants are plain strings in the source; the constant for "no direction"
  is the one-character string \<open>"0"\<close>.
\<close>

definition DIRECTION_NONE :: string where
  "DIRECTION_NONE = ''0''"

definition DIRECTION_LEFT :: string where
  "DIRECTION_LEFT = ''left''"

definition DIRECTION_RIGHT :: string where
  "DIRECTION_RIGHT = ''right''"

definition DIRECTION_UP :: string where
  "DIRECTION_UP = ''up''"

definition DIRECTION_DOWN :: string where
  "DIRECTION_DOWN = ''down''"

definition DIRECTION_HORIZONTAL :: "string list" where
  "DIRECTION_HORIZONTAL = [DIRECTION_LEFT, DIRECTION_RIGHT]"

definition DIRECTION_VERTICAL :: "string list" where
  "DIRECTION_VERTICAL = [DIRECTION_UP, DIRECTION_DOWN]"

definition DIRECTION_ALL :: "string list" where
  "DIRECTION_ALL = [DIRECTION_LEFT, DIRECTION_RIGHT, DIRECTION_UP, DIRECTION_DOWN]"

text \<open>
  \<open>enum GestureState { Possible = "possible", Blocked = "blocked" }\<close>: a string enum with
  two members. \<open>GestureState_members\<close> lists them in declaration order and
  \<open>GestureState_value\<close> gives the string each one holds at run time.
\<close>

datatype GestureState = Possible | Blocked

definition GestureState_members :: "GestureState list" where
  "GestureState_members = [Possible, Blocked]"

fun GestureState_value :: "GestureState \<Rightarrow> string" where
  "GestureState_value Possible = ''possible''"
| "GestureState_value Blocked = ''blocked''"

text \<open>
  Modelled from the spec: the function that derives a direction bucket from a motion
  vector lives in the Contact class, which is not among the sources. The spec says the
  bucket is "derived by quantizing a motion vector into the dominant of the horizontal or
  vertical axis; zero-length vectors map to none". The spec does not say which axis wins
  when both components have the same magnitude, so that choice is the parameter
  \<open>horizontal_wins_ties\<close>. The values returned are the constants of the source.
\<close>

definition getDirection :: "bool \<Rightarrow> real \<Rightarrow> real \<Rightarrow> string" where
  "getDirection horizontal_wins_ties deltaX deltaY =
     (if deltaX = 0 \<and> deltaY = 0 then DIRECTION_NONE
      else if \<bar>deltaX\<bar> > \<bar>deltaY\<bar> \<or> (\<bar>deltaX\<bar> = \<bar>deltaY\<bar> \<and> horizontal_wins_ties)
      then (if deltaX < 0 then DIRECTION_LEFT else DIRECTION_RIGHT)
      else (if deltaY < 0 then DIRECTION_UP else DIRECTION_DOWN))"

section \<open>Gesture events\<close>

text \<open>
  A JavaScript value as far as the event payload needs it: an object is a list of named
  properties holding plain data or methods.
\<close>

datatype jsval =
    JUndefined
  | JNull
  | JBool bool
  | JNum real
  | JStr string
  | JMethod string
  | JObj "(string \<times> jsval) list"

text \<open>
  A gesture event as the host receives it: \<open>event.type\<close> and \<open>event.detail\<close>.
\<close>

record gesture_event =
  event_type :: string
  detail :: jsval


section \<open>The gesture classes exported by \<open>index.ts\<close>\<close>

text \<open>
  The six gesture classes that \<open>index.ts\<close> re-exports from \<open>./gestures\<close>, in the order of
  the export list. \<open>HostFunction\<close> stands for any other function a host passes in
  \<open>supportedGestures\<close>.
\<close>

datatype GestureClass = Tap | Press | Pan | Pinch | Rotate | TwoFingerPan | HostFunction nat

definition exported_gestures :: "GestureClass list" where
  "exported_gestures = [Tap, Press, Pan, Pinch, Rotate, TwoFingerPan]"

definition ALL_GESTURE_CLASSES :: "GestureClass list" where
  "ALL_GESTURE_CLASSES = [Tap, Pan, Pinch, Rotate, TwoFingerPan]"

section \<open>The PointerListener\<close>

subsection \<open>Input and collaborators\<close>

record PointerEvent =
  pointerId :: int
  clientX :: real
  clientY :: real
  timeStamp :: real

record TouchEvent =
  touches :: "(int \<times> real \<times> real) list"

text \<open>
  Errors a handler or the constructor can throw: \<open>Error\<close> is the one the constructor
  throws itself, \<open>TypeError\<close> is what the engine throws when a method is called on
  \<open>null\<close>.
\<close>

datatype js_error = Error string | TypeError string

text \<open>
  The result of \<open>typeof\<close> for values that are neither functions nor objects.
\<close>

datatype prim_type = Undefined | Boolean | Number | String | Symbol | Bigint

fun typeof_prim :: "prim_type \<Rightarrow> string" where
  "typeof_prim Undefined = ''undefined''"
| "typeof_prim Boolean = ''boolean''"
| "typeof_prim Number = ''number''"
| "typeof_prim String = ''string''"
| "typeof_prim Symbol = ''symbol''"
| "typeof_prim Bigint = ''bigint''"

text \<open>
  An entry of the \<open>supportedGestures\<close> option. \<open>typeof\<close> is \<open>"function"\<close> for a class or
  another function that \<open>new\<close> can call (\<open>EntryFunction\<close>) and for a function that is not a
  constructor, such as an arrow function (\<open>EntryNotConstructor\<close>), on which \<open>new\<close> throws
  a TypeError. \<open>typeof\<close> is \<open>"object"\<close> for an object implementing the recognizer methods
  (\<open>EntryObject\<close>) and also for \<open>null\<close> (\<open>EntryNull\<close>). Everything else is \<open>EntryOther\<close>.
\<close>

datatype 'g GestureEntry =
    EntryFunction GestureClass
  | EntryNotConstructor
  | EntryObject 'g
  | EntryNull
  | EntryOther prim_type

text \<open>
  The options object handed to the constructor. \<open>opt_supportedGestures\<close> is \<open>None\<close>
  when the object has no own property \<open>supportedGestures\<close>; \<open>opt_handleTouchEvents\<close> is
  \<open>None\<close> when the key is absent, and otherwise says whether the value given is \<open>== true\<close>;
  \<open>opt_keys\<close> are the remaining keys, among them the hooks \<open>pointerdown\<close>, \<open>pointermove\<close>,
  \<open>pointerup\<close> and \<open>pointercancel\<close>, whose values are taken to be functions.
\<close>

record 'g Options =
  opt_supportedGestures :: "'g GestureEntry list option"
  opt_handleTouchEvents :: "bool option"
  opt_keys :: "string list"

text \<open>
  The calls the listener makes on objects it does not implement, in program order: the DOM
  element, the Contact, the recognizers and the host's hooks.
\<close>

datatype call =
    SetPointerCapture int
  | ReleasePointerCapture int
  | NewContact PointerEvent
  | AddPointer PointerEvent
  | OnPointerMove PointerEvent
  | OnPointerUp PointerEvent
  | OnPointerLeave PointerEvent
  | OnPointerCancel PointerEvent
  | Recognize nat
  | OnTouchMove nat TouchEvent
  | Hook string PointerEvent

text \<open>
  The Contact class and the gesture classes are not among the sources, so what their
  methods do is a parameter of the model: \<open>'c\<close> is the state of a Contact object and
  \<open>'g\<close> the state of a recognizer object. \<open>recognize\<close> is given \<open>this.contact\<close> and
  returns the recognizer's new state and the gesture events it dispatched on the element.
  Each method is taken to return normally and to change only its own object.
\<close>

record ('c, 'g) collaborators =
  newContact :: "PointerEvent \<Rightarrow> 'c"
  addPointer :: "PointerEvent \<Rightarrow> 'c \<Rightarrow> 'c"
  onPointerMove :: "PointerEvent \<Rightarrow> 'c \<Rightarrow> 'c"
  onPointerUp :: "PointerEvent \<Rightarrow> 'c \<Rightarrow> 'c"
  onPointerLeave :: "PointerEvent \<Rightarrow> 'c \<Rightarrow> 'c"
  onPointerCancel :: "PointerEvent \<Rightarrow> 'c \<Rightarrow> 'c"
  isActive :: "'c \<Rightarrow> bool"
  instantiate :: "GestureClass \<Rightarrow> nat \<Rightarrow> 'g"
  recognize :: "'c option \<Rightarrow> 'g \<Rightarrow> 'g \<times> gesture_event list"
  onTouchMove :: "TouchEvent \<Rightarrow> 'g \<Rightarrow> 'g"

subsection \<open>State and constructor\<close>

text \<open>
  The fields of a PointerListener: \<open>supportedGestures\<close> is \<open>this.options.supportedGestures\<close>
  (an element is \<open>None\<close> where the array holds \<open>null\<close>),
  \<open>optionKeys\<close> the own keys of \<open>this.options\<close>, \<open>contact\<close> is \<open>this.contact\<close> (\<open>None\<close> for
  \<open>null\<close>), \<open>touchmoveRegistered\<close> says whether \<open>addTouchListeners\<close> registered the
  \<open>touchmove\<close> listener. \<open>calls\<close> and \<open>dispatched\<close> record what happened so far: the calls
  made on collaborators and the gesture events the recognizers dispatched.
\<close>

record ('c, 'g) PointerListener =
  domElement :: nat
  supportedGestures :: "'g option list"
  handleTouchEvents :: bool
  optionKeys :: "string list"
  contact :: "'c option"
  touchmoveRegistered :: bool
  calls :: "call list"
  dispatched :: "gesture_event list"

text \<open>
  The loop of the constructor over \<open>supportedGestures\<close>: an entry whose \<open>typeof\<close> is
  \<open>"function"\<close> is instantiated with \<open>new\<close>, one whose \<open>typeof\<close> is \<open>"object"\<close> is taken
  as it is, \<open>null\<close> included, and the result is pushed; any other entry throws.
\<close>

fun instantiate_gestures ::
  "('c, 'g) collaborators \<Rightarrow> nat \<Rightarrow> 'g GestureEntry list \<Rightarrow> 'g option list
     \<Rightarrow> js_error + 'g option list" where
  "instantiate_gestures env element [] acc = Inr acc"
| "instantiate_gestures env element (EntryFunction k # es) acc =
     instantiate_gestures env element es (acc @ [Some (instantiate env k element)])"
| "instantiate_gestures env element (EntryNotConstructor # es) acc =
     Inl (TypeError ''GestureClass is not a constructor'')"
| "instantiate_gestures env element (EntryObject g # es) acc =
     instantiate_gestures env element es (acc @ [Some g])"
| "instantiate_gestures env element (EntryNull # es) acc =
     instantiate_gestures env element es (acc @ [None])"
| "instantiate_gestures env element (EntryOther t # es) acc =
     Inl (Error (''unsupported gesture type: '' @ typeof_prim t))"

definition addTouchListeners :: "('c, 'g) PointerListener \<Rightarrow> ('c, 'g) PointerListener" where
  "addTouchListeners self =
     (if handleTouchEvents self then self\<lparr>touchmoveRegistered := True\<rparr> else self)"

definition PointerListener_new ::
  "('c, 'g) collaborators \<Rightarrow> nat \<Rightarrow> 'g Options \<Rightarrow> js_error + ('c, 'g) PointerListener" where
  "PointerListener_new env element options =
     (let supported =
            (case opt_supportedGestures options of
               None \<Rightarrow> map EntryFunction ALL_GESTURE_CLASSES
             | Some given \<Rightarrow> given)
      in case instantiate_gestures env element supported [] of
           Inl e \<Rightarrow> Inl e
         | Inr gestures \<Rightarrow>
             Inr (addTouchListeners
                   \<lparr>domElement = element,
                    supportedGestures = gestures,
                    handleTouchEvents =
                      (case opt_handleTouchEvents options of None \<Rightarrow> True | Some b \<Rightarrow> b),
                    optionKeys = ''supportedGestures'' # ''handleTouchEvents'' # opt_keys options,
                    contact = None,
                    touchmoveRegistered = False,
                    calls = [],
                    dispatched = []\<rparr>))"

subsection \<open>Running the recognizers\<close>

definition record_call :: "call \<Rightarrow> ('c, 'g) PointerListener \<Rightarrow> ('c, 'g) PointerListener" where
  "record_call c self = self\<lparr>calls := calls self @ [c]\<rparr>"

definition hasHook :: "string \<Rightarrow> ('c, 'g) PointerListener \<Rightarrow> bool" where
  "hasHook name self = (name \<in> set (optionKeys self))"

definition runHook ::
  "string \<Rightarrow> PointerEvent \<Rightarrow> ('c, 'g) PointerListener \<Rightarrow> ('c, 'g) PointerListener" where
  "runHook name ev self = (if hasHook name self then record_call (Hook name ev) self else self)"

text \<open>
  \<open>recognizeGestures\<close>: the loop \<open>for g = 0 .. length - 1\<close> calls \<open>recognize(this.contact)\<close>
  on the g-th recognizer. \<open>recognize_loop\<close> is the loop from index \<open>g\<close> on, over the
  entries still to come; on a \<open>null\<close> entry the method call throws a TypeError.
\<close>

fun recognize_loop ::
  "('c, 'g) collaborators \<Rightarrow> 'c option \<Rightarrow> nat \<Rightarrow> 'g option list
     \<Rightarrow> js_error + 'g option list \<times> call list \<times> gesture_event list" where
  "recognize_loop env c g [] = Inr ([], [], [])"
| "recognize_loop env c g (None # rest) =
     Inl (TypeError ''Cannot read properties of null (reading 'recognize')'')"
| "recognize_loop env c g (Some gesture # rest) =
     (case recognize env c gesture of
        (gesture', events) \<Rightarrow>
          (case recognize_loop env c (Suc g) rest of
             Inl e \<Rightarrow> Inl e
           | Inr (rest', cs, events') \<Rightarrow>
               Inr (Some gesture' # rest', Recognize g # cs, events @ events')))"

definition recognizeGestures ::
  "('c, 'g) collaborators \<Rightarrow> ('c, 'g) PointerListener \<Rightarrow> js_error + ('c, 'g) PointerListener" where
  "recognizeGestures env self =
     (case recognize_loop env (contact self) 0 (supportedGestures self) of
        Inl e \<Rightarrow> Inl e
      | Inr (gestures, cs, events) \<Rightarrow>
          Inr (self\<lparr>supportedGestures := gestures,
                    calls := calls self @ cs,
                    dispatched := dispatched self @ events\<rparr>))"

subsection \<open>The event handlers\<close>

text \<open>
  The guard \<open>self.contact != null && self.contact.isActive == true\<close> of the move, up and
  leave handlers.
\<close>

definition contactActive :: "('c, 'g) collaborators \<Rightarrow> ('c, 'g) PointerListener \<Rightarrow> bool" where
  "contactActive env self = (case contact self of None \<Rightarrow> False | Some c \<Rightarrow> isActive env c)"

definition pointerdown ::
  "('c, 'g) collaborators \<Rightarrow> PointerEvent \<Rightarrow> ('c, 'g) PointerListener
     \<Rightarrow> js_error + ('c, 'g) PointerListener" where
  "pointerdown env ev self =
     (let s1 = record_call (SetPointerCapture (pointerId ev)) self;
          s2 = (case contact s1 of
                  None \<Rightarrow> (record_call (NewContact ev) s1)\<lparr>contact := Some (newContact env ev)\<rparr>
                | Some c \<Rightarrow>
                    if isActive env c
                    then (record_call (AddPointer ev) s1)\<lparr>contact := Some (addPointer env ev c)\<rparr>
                    else (record_call (NewContact ev) s1)\<lparr>contact := Some (newContact env ev)\<rparr>)
      in Inr (runHook ''pointerdown'' ev s2))"

definition pointermove ::
  "('c, 'g) collaborators \<Rightarrow> PointerEvent \<Rightarrow> ('c, 'g) PointerListener
     \<Rightarrow> js_error + ('c, 'g) PointerListener" where
  "pointermove env ev self =
     (case contact self of
        None \<Rightarrow> Inr self
      | Some c \<Rightarrow>
          if isActive env c
          then (let s1 = (record_call (OnPointerMove ev) self)\<lparr>contact := Some (onPointerMove env ev c)\<rparr>
                in case recognizeGestures env s1 of
                     Inl e \<Rightarrow> Inl e
                   | Inr s2 \<Rightarrow> Inr (runHook ''pointermove'' ev s2))
          else Inr self)"

definition pointerup ::
  "('c, 'g) collaborators \<Rightarrow> PointerEvent \<Rightarrow> ('c, 'g) PointerListener
     \<Rightarrow> js_error + ('c, 'g) PointerListener" where
  "pointerup env ev self =
     (let s0 = record_call (ReleasePointerCapture (pointerId ev)) self
      in case contact s0 of
           None \<Rightarrow> Inr s0
         | Some c \<Rightarrow>
             if isActive env c
             then (let s1 = (record_call (OnPointerUp ev) s0)\<lparr>contact := Some (onPointerUp env ev c)\<rparr>
                   in case recognizeGestures env s1 of
                        Inl e \<Rightarrow> Inl e
                      | Inr s2 \<Rightarrow> Inr (runHook ''pointerup'' ev s2))
             else Inr s0)"

definition pointerleave ::
  "('c, 'g) collaborators \<Rightarrow> PointerEvent \<Rightarrow> ('c, 'g) PointerListener
     \<Rightarrow> js_error + ('c, 'g) PointerListener" where
  "pointerleave env ev self =
     (case contact self of
        None \<Rightarrow> Inr self
      | Some c \<Rightarrow>
          if isActive env c
          then (let s1 = (record_call (OnPointerLeave ev) self)\<lparr>contact := Some (onPointerLeave env ev c)\<rparr>
                in recognizeGestures env s1)
          else Inr self)"

text \<open>
  The cancel handler has no guard: it calls \<open>self.contact.onPointerCancel(event)\<close> whatever
  \<open>self.contact\<close> is, so with \<open>self.contact == null\<close> the call throws a TypeError. (Its
  \<open>this.DEBUG\<close> test reads a property of the element and only decides about a log line.)
\<close>

definition pointercancel ::
  "('c, 'g) collaborators \<Rightarrow> PointerEvent \<Rightarrow> ('c, 'g) PointerListener
     \<Rightarrow> js_error + ('c, 'g) PointerListener" where
  "pointercancel env ev self =
     (let s0 = record_call (ReleasePointerCapture (pointerId ev)) self
      in case contact s0 of
           None \<Rightarrow> Inl (TypeError ''Cannot read properties of null (reading 'onPointerCancel')'')
         | Some c \<Rightarrow>
             (let s1 = (record_call (OnPointerCancel ev) s0)\<lparr>contact := Some (onPointerCancel env ev c)\<rparr>
              in case recognizeGestures env s1 of
                   Inl e \<Rightarrow> Inl e
                 | Inr s2 \<Rightarrow> Inr (runHook ''pointercancel'' ev s2)))"

text \<open>
  The \<open>touchmove\<close> listener, which exists only if \<open>addTouchListeners\<close> registered it: it calls
  \<open>onTouchMove(event)\<close> on every recognizer, in order; on a \<open>null\<close> entry the call throws.
\<close>

fun touchmove_loop ::
  "('c, 'g) collaborators \<Rightarrow> TouchEvent \<Rightarrow> nat \<Rightarrow> 'g option list
     \<Rightarrow> js_error + 'g option list \<times> call list" where
  "touchmove_loop env ev g [] = Inr ([], [])"
| "touchmove_loop env ev g (None # rest) =
     Inl (TypeError ''Cannot read properties of null (reading 'onTouchMove')'')"
| "touchmove_loop env ev g (Some gesture # rest) =
     (case touchmove_loop env ev (Suc g) rest of
        Inl e \<Rightarrow> Inl e
      | Inr (rest', cs) \<Rightarrow> Inr (Some (onTouchMove env ev gesture) # rest', OnTouchMove g ev # cs))"

definition touchmove ::
  "('c, 'g) collaborators \<Rightarrow> TouchEvent \<Rightarrow> ('c, 'g) PointerListener
     \<Rightarrow> js_error + ('c, 'g) PointerListener" where
  "touchmove env ev self =
     (if touchmoveRegistered self
      then (case touchmove_loop env ev 0 (supportedGestures self) of
              Inl e \<Rightarrow> Inl e
            | Inr (gestures, cs) \<Rightarrow>
                Inr (self\<lparr>supportedGestures := gestures, calls := calls self @ cs\<rparr>))
      else Inr self)"

text \<open>
  An input sample with its phase, and the handler the element runs for it.
\<close>

datatype Sample =
    Down PointerEvent
  | Move PointerEvent
  | Up PointerEvent
  | Leave PointerEvent
  | Cancel PointerEvent
  | TouchMove TouchEvent

fun handle ::
  "('c, 'g) collaborators \<Rightarrow> Sample \<Rightarrow> ('c, 'g) PointerListener
     \<Rightarrow> js_error + ('c, 'g) PointerListener" where
  "handle env (Down ev) self = pointerdown env ev self"
| "handle env (Move ev) self = pointermove env ev self"
| "handle env (Up ev) self = pointerup env ev self"
| "handle env (Leave ev) self = pointerleave env ev self"
| "handle env (Cancel ev) self = pointercancel env ev self"
| "handle env (TouchMove ev) self = touchmove env ev self"

section \<open>The host page of \<open>tests/gestures/test.js\<close>\<close>


definition bind_err :: "js_error + 'a \<Rightarrow> ('a \<Rightarrow> js_error + 'b) \<Rightarrow> js_error + 'b" where
  "bind_err x f = (case x of Inl e \<Rightarrow> Inl e | Inr v \<Rightarrow> f v)"









section \<open>Vocabulary of the statements\<close>

text \<open>
  The calls a hook contributes, the recognizer states after each recognizer has been
  evaluated once on a given contact, and the events these evaluations dispatch.
\<close>

definition hook_calls :: "string \<Rightarrow> PointerEvent \<Rightarrow> ('c, 'g) PointerListener \<Rightarrow> call list" where
  "hook_calls name ev self = (if hasHook name self then [Hook name ev] else [])"

definition evaluated :: "('c, 'g) collaborators \<Rightarrow> 'c option \<Rightarrow> 'g list \<Rightarrow> 'g list" where
  "evaluated env c gestures = map (\<lambda>g. fst (recognize env c g)) gestures"

definition events_of :: "('c, 'g) collaborators \<Rightarrow> 'c option \<Rightarrow> 'g list \<Rightarrow> gesture_event list" where
  "events_of env c gestures = concat (map (\<lambda>g. snd (recognize env c g)) gestures)"






section \<open>A Contact Tracker and a recognizer to run the listener with\<close>

text \<open>
  Modelled from the spec: the Contact class is not among the sources. The spec describes
  a Contact as a "mapping from pointer id to {first sample at gesture start, previous
  sample, current sample}, plus isActive flag and startTime", active iff it holds at least
  one pointer id.
\<close>

record PointerInput =
  firstSample :: PointerEvent
  previousSample :: PointerEvent
  currentSample :: PointerEvent

record Contact =
  pointerInputs :: "(int \<times> PointerInput) list"
  active :: bool
  startTime :: real

text \<open>
  Modelled from the spec: the Contact class is missing; "if no Contact is active, creates one with this
  sample as start".
\<close>

definition Contact_create :: "PointerEvent \<Rightarrow> Contact" where
  "Contact_create ev =
     \<lparr>pointerInputs =
        [(pointerId ev, \<lparr>firstSample = ev, previousSample = ev, currentSample = ev\<rparr>)],
      active = True,
      startTime = timeStamp ev\<rparr>"

text \<open>
  Modelled from the spec: the Contact class is missing; addPointer "registers a new pointer id ...
  fails silently (no-op) if the id already exists".
\<close>

definition Contact_addPointer :: "PointerEvent \<Rightarrow> Contact \<Rightarrow> Contact" where
  "Contact_addPointer ev c =
     (case map_of (pointerInputs c) (pointerId ev) of
        Some p \<Rightarrow> c
      | None \<Rightarrow>
          c\<lparr>pointerInputs :=
              pointerInputs c @
                [(pointerId ev, \<lparr>firstSample = ev, previousSample = ev, currentSample = ev\<rparr>)]\<rparr>)"

text \<open>
  Modelled from the spec: the Contact class is missing; updatePointer "overwrites the current sample
  for an existing id, preserving the prior sample as previous; no-op if the id is unknown".
\<close>

definition Contact_updatePointer :: "PointerEvent \<Rightarrow> Contact \<Rightarrow> Contact" where
  "Contact_updatePointer ev c =
     c\<lparr>pointerInputs :=
         map (\<lambda>(i, p). if i = pointerId ev
                         then (i, p\<lparr>previousSample := currentSample p, currentSample := ev\<rparr>)
                         else (i, p))
             (pointerInputs c)\<rparr>"

text \<open>
  Modelled from the spec: the Contact class is missing; removePointer "marks the id inactive; Contact
  becomes inactive when the last id is removed".
\<close>

definition Contact_removePointer :: "int \<Rightarrow> Contact \<Rightarrow> Contact" where
  "Contact_removePointer i c =
     (let remaining = filter (\<lambda>(j, p). j \<noteq> i) (pointerInputs c)
      in c\<lparr>pointerInputs := remaining, active := (remaining \<noteq> [])\<rparr>)"

text \<open>
  Modelled from the spec: the Contact class is missing; cancel "force-clears all pointers immediately".
\<close>

definition Contact_cancel :: "Contact \<Rightarrow> Contact" where
  "Contact_cancel c = c\<lparr>pointerInputs := [], active := False\<rparr>"

text \<open>
  Modelled from the spec: the Contact class is missing; hasPointersOnSurface is "true iff at least one
  pointer id is currently registered".
\<close>

definition hasPointersOnSurface :: "Contact \<Rightarrow> bool" where
  "hasPointersOnSurface c = (pointerInputs c \<noteq> [])"

text \<open>
  A recognizer object of the kind a host may pass in \<open>supportedGestures\<close>: it counts how
  often it is evaluated, dispatches one event under its name at each evaluation, and keeps
  the touch-move notifications it is given.
\<close>

record Probe =
  probe_name :: string
  evaluations :: nat
  touchMoves :: "TouchEvent list"

fun class_name :: "GestureClass \<Rightarrow> string" where
  "class_name Tap = ''tap''"
| "class_name Press = ''press''"
| "class_name Pan = ''pan''"
| "class_name Pinch = ''pinch''"
| "class_name Rotate = ''rotate''"
| "class_name TwoFingerPan = ''twofingerpan''"
| "class_name (HostFunction n) = ''host''"

definition probe :: "string \<Rightarrow> Probe" where
  "probe name = \<lparr>probe_name = name, evaluations = 0, touchMoves = []\<rparr>"

definition Probe_recognize :: "Contact option \<Rightarrow> Probe \<Rightarrow> Probe \<times> gesture_event list" where
  "Probe_recognize c g =
     (g\<lparr>evaluations := Suc (evaluations g)\<rparr>,
      [\<lparr>event_type = probe_name g, detail = JUndefined\<rparr>])"

definition Probe_onTouchMove :: "TouchEvent \<Rightarrow> Probe \<Rightarrow> Probe" where
  "Probe_onTouchMove ev g = g\<lparr>touchMoves := touchMoves g @ [ev]\<rparr>"

text \<open>
  The listener's collaborators for the runs below. The Contact methods the handlers call
  are given by the tracker operations above: a move updates the pointer, an up and a leave
  remove it, a cancel clears the Contact (the spec names the operations, not the methods;
  this is the pairing by phase). The recognizers are probes.
\<close>

definition demo_env :: "(Contact, Probe) collaborators" where
  "demo_env =
     \<lparr>newContact = Contact_create,
      addPointer = Contact_addPointer,
      onPointerMove = Contact_updatePointer,
      onPointerUp = (\<lambda>ev. Contact_removePointer (pointerId ev)),
      onPointerLeave = (\<lambda>ev. Contact_removePointer (pointerId ev)),
      onPointerCancel = (\<lambda>ev. Contact_cancel),
      isActive = active,
      instantiate = (\<lambda>k element. probe (class_name k)),
      recognize = Probe_recognize,
      onTouchMove = Probe_onTouchMove\<rparr>"

definition no_options :: "Probe Options" where
  "no_options = \<lparr>opt_supportedGestures = None, opt_handleTouchEvents = None, opt_keys = []\<rparr>"

definition sample_at :: "int \<Rightarrow> real \<Rightarrow> real \<Rightarrow> real \<Rightarrow> PointerEvent" where
  "sample_at i x y t = \<lparr>pointerId = i, clientX = x, clientY = y, timeStamp = t\<rparr>"

text \<open>
  The listener right after construction with no options, and the same listener after a
  down sample of pointer 1.
\<close>

definition fresh_listener :: "(Contact, Probe) PointerListener" where
  "fresh_listener =
     \<lparr>domElement = 0,
      supportedGestures =
        map (\<lambda>k. Some (probe (class_name k))) [Tap, Pan, Pinch, Rotate, TwoFingerPan],
      handleTouchEvents = True,
      optionKeys = [''supportedGestures'', ''handleTouchEvents''],
      contact = None,
      touchmoveRegistered = True,
      calls = [],
      dispatched = []\<rparr>"

definition touching_listener :: "(Contact, Probe) PointerListener" where
  "touching_listener =
     fresh_listener
       \<lparr>contact := Some (Contact_create (sample_at 1 10 10 0)),
        calls := [SetPointerCapture 1, NewContact (sample_at 1 10 10 0)]\<rparr>"

text \<open>
  A configuration whose only entry is \<open>null\<close>, the listener the constructor returns for it,
  and that listener after a down sample of pointer 1.
\<close>

definition null_options :: "Probe Options" where
  "null_options =
     \<lparr>opt_supportedGestures = Some [EntryNull], opt_handleTouchEvents = None, opt_keys = []\<rparr>"

definition null_listener :: "(Contact, Probe) PointerListener" where
  "null_listener = fresh_listener\<lparr>supportedGestures := [None]\<rparr>"

definition null_touching_listener :: "(Contact, Probe) PointerListener" where
  "null_touching_listener = touching_listener\<lparr>supportedGestures := [None]\<rparr>"

section \<open>What the loops and handlers compute\<close>

lemma recognize_loop_eq:
  "recognize_loop env c g (map Some gs) =
     Inr (map Some (evaluated env c gs), map Recognize [g..<g + length gs], events_of env c gs)"
proof (induction gs arbitrary: g)
  case Nil
  then show ?case by (simp add: evaluated_def events_of_def)
next
  case (Cons x xs)
  have "[g..<g + length (x # xs)] = g # [Suc g..<Suc g + length xs]"
    using upt_conv_Cons [of g "g + length (x # xs)"] by simp
  with Cons.IH [of "Suc g"] show ?case
    by (simp add: evaluated_def events_of_def split: prod.splits)
qed


lemma recognizeGestures_eq:
  "supportedGestures self = map Some gs \<Longrightarrow>
   recognizeGestures env self =
     Inr (self\<lparr>supportedGestures := map Some (evaluated env (contact self) gs),
               calls := calls self @ map Recognize [0..<length gs],
               dispatched := dispatched self @ events_of env (contact self) gs\<rparr>)"
  by (simp add: recognizeGestures_def recognize_loop_eq)

lemma runHook_fields:
  "supportedGestures (runHook name ev self) = supportedGestures self"
  "contact (runHook name ev self) = contact self"
  "dispatched (runHook name ev self) = dispatched self"
  "calls (runHook name ev self) = calls self @ hook_calls name ev self"
  by (simp_all add: runHook_def hook_calls_def record_call_def)

lemma hook_calls_keys [simp]:
  "hook_calls name ev (self\<lparr>supportedGestures := a\<rparr>) = hook_calls name ev self"
  "hook_calls name ev (self\<lparr>calls := b\<rparr>) = hook_calls name ev self"
  "hook_calls name ev (self\<lparr>contact := c\<rparr>) = hook_calls name ev self"
  "hook_calls name ev (self\<lparr>dispatched := d\<rparr>) = hook_calls name ev self"
  by (simp_all add: hook_calls_def hasHook_def)

lemma pointermove_active:
  assumes "supportedGestures self = map Some gs" and "contact self = Some c" and "isActive env c"
  shows "\<exists>s'. pointermove env ev self = Inr s' \<and>
           contact s' = Some (onPointerMove env ev c) \<and>
           supportedGestures s' = map Some (evaluated env (Some (onPointerMove env ev c)) gs) \<and>
           dispatched s' =
             dispatched self @ events_of env (Some (onPointerMove env ev c)) gs \<and>
           calls s' =
             calls self @ OnPointerMove ev # map Recognize [0..<length gs]
               @ hook_calls ''pointermove'' ev self"
  using assms
  by (simp add: pointermove_def recognizeGestures_eq runHook_fields record_call_def)

lemma pointerup_active:
  assumes "supportedGestures self = map Some gs" and "contact self = Some c" and "isActive env c"
  shows "\<exists>s'. pointerup env ev self = Inr s' \<and>
           contact s' = Some (onPointerUp env ev c) \<and>
           supportedGestures s' = map Some (evaluated env (Some (onPointerUp env ev c)) gs) \<and>
           dispatched s' =
             dispatched self @ events_of env (Some (onPointerUp env ev c)) gs \<and>
           calls s' =
             calls self @ ReleasePointerCapture (pointerId ev) # OnPointerUp ev
               # map Recognize [0..<length gs]
               @ hook_calls ''pointerup'' ev self"
  using assms
  by (simp add: pointerup_def recognizeGestures_eq runHook_fields record_call_def)

lemma pointerleave_active:
  assumes "supportedGestures self = map Some gs" and "contact self = Some c" and "isActive env c"
  shows "\<exists>s'. pointerleave env ev self = Inr s' \<and>
           contact s' = Some (onPointerLeave env ev c) \<and>
           supportedGestures s' = map Some (evaluated env (Some (onPointerLeave env ev c)) gs) \<and>
           dispatched s' =
             dispatched self @ events_of env (Some (onPointerLeave env ev c)) gs \<and>
           calls s' =
             calls self @ OnPointerLeave ev # map Recognize [0..<length gs]"
  using assms
  by (simp add: pointerleave_def recognizeGestures_eq record_call_def)

lemma pointercancel_with_contact:
  assumes "supportedGestures self = map Some gs" and "contact self = Some c"
  shows "\<exists>s'. pointercancel env ev self = Inr s' \<and>
           contact s' = Some (onPointerCancel env ev c) \<and>
           supportedGestures s' = map Some (evaluated env (Some (onPointerCancel env ev c)) gs) \<and>
           dispatched s' =
             dispatched self @ events_of env (Some (onPointerCancel env ev c)) gs \<and>
           calls s' =
             calls self @ ReleasePointerCapture (pointerId ev) # OnPointerCancel ev
               # map Recognize [0..<length gs]
               @ hook_calls ''pointercancel'' ev self"
  using assms
  by (simp add: pointercancel_def recognizeGestures_eq runHook_fields record_call_def)

lemma pointerdown_result:
  "\<exists>s'. pointerdown env ev self = Inr s' \<and>
     contact s' =
       Some (case contact self of
               None \<Rightarrow> newContact env ev
             | Some c \<Rightarrow> if isActive env c then addPointer env ev c else newContact env ev) \<and>
     supportedGestures s' = supportedGestures self \<and>
     dispatched s' = dispatched self \<and>
     calls s' =
       calls self @ SetPointerCapture (pointerId ev)
         # (if contactActive env self then AddPointer ev else NewContact ev)
         # hook_calls ''pointerdown'' ev self"
  by (simp add: pointerdown_def runHook_fields record_call_def contactActive_def
      split: option.splits)

lemma instantiate_gestures_classes:
  "instantiate_gestures env element (map EntryFunction ks) acc =
     Inr (acc @ map (\<lambda>k. Some (instantiate env k element)) ks)"
  by (induction ks arbitrary: acc) simp_all


lemma bind_err_simps [simp]:
  "bind_err (Inr v) f = f v"
  "bind_err (Inl e) f = Inl e"
  by (simp_all add: bind_err_def)





section \<open>Evaluating the runs\<close>

lemmas demo_simps =
  demo_env_def no_options_def sample_at_def fresh_listener_def touching_listener_def
  null_options_def null_listener_def null_touching_listener_def
  probe_def Probe_recognize_def Probe_onTouchMove_def Contact_create_def Contact_addPointer_def
  Contact_updatePointer_def Contact_removePointer_def Contact_cancel_def
  hook_calls_def hasHook_def evaluated_def events_of_def contactActive_def


section \<open>The recognizer states\<close>

text \<open>
  C1 (as amended). The \<open>GestureState\<close> enumeration comprises exactly the two states
  \<open>Possible\<close> and \<open>Blocked\<close>, so every value of the type is one of these two, and the string
  it holds is \<open>"possible"\<close> or \<open>"blocked"\<close>.
\<close>

theorem GestureState_two_members:
  "(UNIV :: GestureState set) = {Possible, Blocked} \<and>
   GestureState_members = [Possible, Blocked] \<and>
   distinct GestureState_members \<and>
   (GestureState_value s = ''possible'' \<or> GestureState_value s = ''blocked'')"
proof -
  have "(UNIV :: GestureState set) = {Possible, Blocked}"
  proof
    show "(UNIV :: GestureState set) \<subseteq> {Possible, Blocked}"
    proof
      fix x :: GestureState
      show "x \<in> {Possible, Blocked}" by (cases x) simp_all
    qed
  qed simp
  moreover have "GestureState_value s = ''possible'' \<or> GestureState_value s = ''blocked''"
    by (cases s) simp_all
  ultimately show ?thesis by (simp add: GestureState_members_def)
qed

text \<open>
  C1, the claim as stated fails: the enumeration has two members, not seven, and none of
  them holds the strings of the states began, changed, ended, cancelled or failed.
\<close>

theorem GestureState_not_seven:
  "length GestureState_members = 2 \<and>
   length GestureState_members \<noteq> 7 \<and>
   ''began'' \<notin> set (map GestureState_value GestureState_members) \<and>
   ''changed'' \<notin> set (map GestureState_value GestureState_members) \<and>
   ''ended'' \<notin> set (map GestureState_value GestureState_members) \<and>
   ''cancelled'' \<notin> set (map GestureState_value GestureState_members) \<and>
   ''failed'' \<notin> set (map GestureState_value GestureState_members)"
  by (simp add: GestureState_members_def)

section \<open>The payload of a gesture event\<close>




section \<open>The direction buckets\<close>

text \<open>
  C3 (as amended). The direction bucket has exactly the five values \<open>DIRECTION_NONE\<close>,
  \<open>"left"\<close>, \<open>"right"\<close>, \<open>"up"\<close> and \<open>"down"\<close>, which are pairwise different; every motion
  vector is given one of them; a zero-length vector is given \<open>DIRECTION_NONE\<close>, and that
  value is the string \<open>"0"\<close>.
\<close>

theorem direction_buckets:
  "getDirection ties deltaX deltaY \<in>
     {DIRECTION_NONE, DIRECTION_LEFT, DIRECTION_RIGHT, DIRECTION_UP, DIRECTION_DOWN} \<and>
   distinct [DIRECTION_NONE, DIRECTION_LEFT, DIRECTION_RIGHT, DIRECTION_UP, DIRECTION_DOWN] \<and>
   getDirection ties 0 0 = DIRECTION_NONE \<and>
   DIRECTION_NONE = ''0''"
  by (simp add: getDirection_def DIRECTION_NONE_def DIRECTION_LEFT_def DIRECTION_RIGHT_def
      DIRECTION_UP_def DIRECTION_DOWN_def)

text \<open>
  C3, the claim as stated fails: the bucket of a zero-length vector is the string \<open>"0"\<close>,
  not the string \<open>"none"\<close>.
\<close>

theorem direction_none_is_not_the_string_none:
  "DIRECTION_NONE \<noteq> ''none'' \<and>
   getDirection True 0 0 \<noteq> ''none'' \<and>
   getDirection False 0 0 \<noteq> ''none''"
  by (simp add: getDirection_def DIRECTION_NONE_def)

section \<open>Order of Contact update and recognition\<close>

text \<open>
  C4 (as amended). For every move, up or leave sample that arrives while a Contact is
  active, and for every cancel sample that arrives while a Contact exists, the Contact is
  updated with that sample before any recognizer evaluates it, and the registered
  recognizers are then each evaluated exactly once, on the updated Contact, in
  registration order: the calls made are the Contact update, then \<open>recognize\<close> on
  recognizer 0, 1, ... in turn, then the host's hook if there is one. The registered
  entries are recognizer objects here, \<open>map Some gs\<close>; what a \<open>null\<close> entry does is under C8.
\<close>

theorem recognizers_run_after_contact_update:
  "(supportedGestures self = map Some gs \<and> contact self = Some c \<and> isActive env c \<longrightarrow>
      (\<exists>s'. pointermove env ev self = Inr s' \<and>
         contact s' = Some (onPointerMove env ev c) \<and>
         supportedGestures s' = map Some (evaluated env (Some (onPointerMove env ev c)) gs) \<and>
         calls s' =
           calls self @ OnPointerMove ev # map Recognize [0..<length gs]
             @ hook_calls ''pointermove'' ev self) \<and>
      (\<exists>s'. pointerup env ev self = Inr s' \<and>
         contact s' = Some (onPointerUp env ev c) \<and>
         supportedGestures s' = map Some (evaluated env (Some (onPointerUp env ev c)) gs) \<and>
         calls s' =
           calls self @ ReleasePointerCapture (pointerId ev) # OnPointerUp ev
             # map Recognize [0..<length gs]
             @ hook_calls ''pointerup'' ev self) \<and>
      (\<exists>s'. pointerleave env ev self = Inr s' \<and>
         contact s' = Some (onPointerLeave env ev c) \<and>
         supportedGestures s' = map Some (evaluated env (Some (onPointerLeave env ev c)) gs) \<and>
         calls s' =
           calls self @ OnPointerLeave ev # map Recognize [0..<length gs])) \<and>
   (supportedGestures self = map Some gs \<and> contact self = Some c \<longrightarrow>
      (\<exists>s'. pointercancel env ev self = Inr s' \<and>
         contact s' = Some (onPointerCancel env ev c) \<and>
         supportedGestures s' = map Some (evaluated env (Some (onPointerCancel env ev c)) gs) \<and>
         calls s' =
           calls self @ ReleasePointerCapture (pointerId ev) # OnPointerCancel ev
             # map Recognize [0..<length gs]
             @ hook_calls ''pointercancel'' ev self))"
proof (intro conjI impI)
  assume a: "supportedGestures self = map Some gs \<and> contact self = Some c \<and> isActive env c"
  from pointermove_active [of self gs c env ev] a
  show "\<exists>s'. pointermove env ev self = Inr s' \<and>
         contact s' = Some (onPointerMove env ev c) \<and>
         supportedGestures s' = map Some (evaluated env (Some (onPointerMove env ev c)) gs) \<and>
         calls s' =
           calls self @ OnPointerMove ev # map Recognize [0..<length gs]
             @ hook_calls ''pointermove'' ev self"
    by blast
  from pointerup_active [of self gs c env ev] a
  show "\<exists>s'. pointerup env ev self = Inr s' \<and>
         contact s' = Some (onPointerUp env ev c) \<and>
         supportedGestures s' = map Some (evaluated env (Some (onPointerUp env ev c)) gs) \<and>
         calls s' =
           calls self @ ReleasePointerCapture (pointerId ev) # OnPointerUp ev
             # map Recognize [0..<length gs]
             @ hook_calls ''pointerup'' ev self"
    by blast
  from pointerleave_active [of self gs c env ev] a
  show "\<exists>s'. pointerleave env ev self = Inr s' \<and>
         contact s' = Some (onPointerLeave env ev c) \<and>
         supportedGestures s' = map Some (evaluated env (Some (onPointerLeave env ev c)) gs) \<and>
         calls s' =
           calls self @ OnPointerLeave ev # map Recognize [0..<length gs]"
    by blast
next
  assume "supportedGestures self = map Some gs \<and> contact self = Some c"
  with pointercancel_with_contact [of self gs c env ev]
  show "\<exists>s'. pointercancel env ev self = Inr s' \<and>
         contact s' = Some (onPointerCancel env ev c) \<and>
         supportedGestures s' = map Some (evaluated env (Some (onPointerCancel env ev c)) gs) \<and>
         calls s' =
           calls self @ ReleasePointerCapture (pointerId ev) # OnPointerCancel ev
             # map Recognize [0..<length gs]
             @ hook_calls ''pointercancel'' ev self"
    by blast
qed

text \<open>
  A run for C4: a move of pointer 1 while it is down updates its current sample and then
  evaluates the five default recognizers once each, in order; a cancel in the same state
  clears the Contact and then evaluates them likewise.
\<close>

theorem recognizers_run_after_contact_update_witness:
  "supportedGestures touching_listener =
     map Some (map (\<lambda>k. probe (class_name k)) [Tap, Pan, Pinch, Rotate, TwoFingerPan]) \<and>
   contact touching_listener = Some (Contact_create (sample_at 1 10 10 0)) \<and>
   isActive demo_env (Contact_create (sample_at 1 10 10 0)) \<and>
   (\<exists>s'. pointermove demo_env (sample_at 1 30 10 16) touching_listener = Inr s' \<and>
      contact s' =
        Some \<lparr>pointerInputs =
                 [(1, \<lparr>firstSample = sample_at 1 10 10 0,
                       previousSample = sample_at 1 10 10 0,
                       currentSample = sample_at 1 30 10 16\<rparr>)],
              active = True, startTime = 0\<rparr> \<and>
      map (map_option evaluations) (supportedGestures s') = [Some 1, Some 1, Some 1, Some 1, Some 1] \<and>
      calls s' =
        [SetPointerCapture 1, NewContact (sample_at 1 10 10 0),
         OnPointerMove (sample_at 1 30 10 16),
         Recognize 0, Recognize 1, Recognize 2, Recognize 3, Recognize 4]) \<and>
   (\<exists>s'. pointercancel demo_env (sample_at 1 30 10 16) touching_listener = Inr s' \<and>
      contact s' = Some \<lparr>pointerInputs = [], active = False, startTime = 0\<rparr> \<and>
      map (map_option evaluations) (supportedGestures s') = [Some 1, Some 1, Some 1, Some 1, Some 1] \<and>
      calls s' =
        [SetPointerCapture 1, NewContact (sample_at 1 10 10 0),
         ReleasePointerCapture 1, OnPointerCancel (sample_at 1 30 10 16),
         Recognize 0, Recognize 1, Recognize 2, Recognize 3, Recognize 4])"
proof -
  let ?gs = "map (\<lambda>k. probe (class_name k)) [Tap, Pan, Pinch, Rotate, TwoFingerPan]"
  let ?c = "Contact_create (sample_at 1 10 10 0)"
  let ?ev = "sample_at 1 30 10 16"
  have h: "supportedGestures touching_listener = map Some ?gs \<and>
           contact touching_listener = Some ?c \<and> isActive demo_env ?c"
    by (simp add: demo_simps)
  note t = recognizers_run_after_contact_update [of touching_listener ?gs ?c demo_env ?ev]
  from t h obtain s' where s':
    "pointermove demo_env ?ev touching_listener = Inr s'"
    "contact s' = Some (onPointerMove demo_env ?ev ?c)"
    "supportedGestures s' = map Some (evaluated demo_env (Some (onPointerMove demo_env ?ev ?c)) ?gs)"
    "calls s' =
       calls touching_listener @ OnPointerMove ?ev # map Recognize [0..<length ?gs]
         @ hook_calls ''pointermove'' ?ev touching_listener"
    by blast
  from t h obtain s'' where s'':
    "pointercancel demo_env ?ev touching_listener = Inr s''"
    "contact s'' = Some (onPointerCancel demo_env ?ev ?c)"
    "supportedGestures s'' = map Some (evaluated demo_env (Some (onPointerCancel demo_env ?ev ?c)) ?gs)"
    "calls s'' =
       calls touching_listener @ ReleasePointerCapture (pointerId ?ev) # OnPointerCancel ?ev
         # map Recognize [0..<length ?gs]
         @ hook_calls ''pointercancel'' ?ev touching_listener"
    by blast
  have "[0..<5] = [0, 1, 2, 3, Suc 3]"
    by (simp add: upt_rec)
  with s' s'' h show ?thesis
    by (simp add: demo_simps)
qed

text \<open>
  C4, the claim as stated fails: a down sample is processed (it creates the Contact) and no
  recognizer is evaluated; a move sample that arrives while no Contact is active neither
  updates a Contact nor evaluates a recognizer.
\<close>

theorem down_and_ignored_move_evaluate_no_recognizer:
  "pointerdown demo_env (sample_at 1 10 10 0) fresh_listener = Inr touching_listener \<and>
   contact fresh_listener = None \<and>
   contact touching_listener = Some (Contact_create (sample_at 1 10 10 0)) \<and>
   supportedGestures touching_listener = supportedGestures fresh_listener \<and>
   map (map_option evaluations) (supportedGestures touching_listener) =
     [Some 0, Some 0, Some 0, Some 0, Some 0] \<and>
   calls touching_listener = [SetPointerCapture 1, NewContact (sample_at 1 10 10 0)] \<and>
   pointermove demo_env (sample_at 1 30 10 16) fresh_listener = Inr fresh_listener \<and>
   map (map_option evaluations) (supportedGestures fresh_listener) =
     [Some 0, Some 0, Some 0, Some 0, Some 0] \<and>
   calls fresh_listener = []"
  by (simp add: demo_simps pointerdown_def pointermove_def runHook_def record_call_def)

section \<open>Pointer-down samples\<close>

text \<open>
  C5. For every pointer-down sample: if no Contact is active (there is none, or the one
  there is inactive), a new Contact is created from that sample; if a Contact is active,
  the sample is added to the existing Contact with \<open>addPointer\<close> and no new Contact is
  created.
\<close>

theorem pointerdown_creates_or_extends:
  "(\<not> contactActive env self \<longrightarrow>
      (\<exists>s'. pointerdown env ev self = Inr s' \<and>
         contact s' = Some (newContact env ev) \<and>
         calls s' =
           calls self @ SetPointerCapture (pointerId ev) # NewContact ev
             # hook_calls ''pointerdown'' ev self)) \<and>
   (contact self = Some c \<and> isActive env c \<longrightarrow>
      (\<exists>s'. pointerdown env ev self = Inr s' \<and>
         contact s' = Some (addPointer env ev c) \<and>
         calls s' =
           calls self @ SetPointerCapture (pointerId ev) # AddPointer ev
             # hook_calls ''pointerdown'' ev self))"
proof (intro conjI impI)
  assume "\<not> contactActive env self"
  with pointerdown_result [of env ev self]
  show "\<exists>s'. pointerdown env ev self = Inr s' \<and>
         contact s' = Some (newContact env ev) \<and>
         calls s' =
           calls self @ SetPointerCapture (pointerId ev) # NewContact ev
             # hook_calls ''pointerdown'' ev self"
    by (auto simp: contactActive_def split: option.splits)
next
  assume "contact self = Some c \<and> isActive env c"
  with pointerdown_result [of env ev self]
  show "\<exists>s'. pointerdown env ev self = Inr s' \<and>
         contact s' = Some (addPointer env ev c) \<and>
         calls s' =
           calls self @ SetPointerCapture (pointerId ev) # AddPointer ev
             # hook_calls ''pointerdown'' ev self"
    by (auto simp: contactActive_def)
qed

text \<open>
  A run for C5 with the Contact of the spec: the first down sample starts a Contact whose
  only pointer is 1, with that sample as its first sample; a second down sample, of
  pointer 2, is added to the same Contact, which keeps its start time.
\<close>

theorem pointerdown_creates_or_extends_witness:
  "\<not> contactActive demo_env fresh_listener \<and>
   (\<exists>s'. pointerdown demo_env (sample_at 1 10 10 0) fresh_listener = Inr s' \<and>
      contact s' =
        Some \<lparr>pointerInputs =
                 [(1, \<lparr>firstSample = sample_at 1 10 10 0,
                       previousSample = sample_at 1 10 10 0,
                       currentSample = sample_at 1 10 10 0\<rparr>)],
              active = True, startTime = 0\<rparr> \<and>
      calls s' = [SetPointerCapture 1, NewContact (sample_at 1 10 10 0)]) \<and>
   contact touching_listener = Some (Contact_create (sample_at 1 10 10 0)) \<and>
   isActive demo_env (Contact_create (sample_at 1 10 10 0)) \<and>
   (\<exists>s'. pointerdown demo_env (sample_at 2 50 50 40) touching_listener = Inr s' \<and>
      contact s' =
        Some \<lparr>pointerInputs =
                 [(1, \<lparr>firstSample = sample_at 1 10 10 0,
                       previousSample = sample_at 1 10 10 0,
                       currentSample = sample_at 1 10 10 0\<rparr>),
                  (2, \<lparr>firstSample = sample_at 2 50 50 40,
                       previousSample = sample_at 2 50 50 40,
                       currentSample = sample_at 2 50 50 40\<rparr>)],
              active = True, startTime = 0\<rparr> \<and>
      calls s' =
        [SetPointerCapture 1, NewContact (sample_at 1 10 10 0),
         SetPointerCapture 2, AddPointer (sample_at 2 50 50 40)])"
proof -
  have h1: "\<not> contactActive demo_env fresh_listener"
    by (simp add: demo_simps)
  have h2: "contact touching_listener = Some (Contact_create (sample_at 1 10 10 0)) \<and>
            isActive demo_env (Contact_create (sample_at 1 10 10 0))"
    by (simp add: demo_simps)
  from pointerdown_creates_or_extends
         [of demo_env fresh_listener "sample_at 1 10 10 0" "Contact_create (sample_at 1 10 10 0)"] h1
  obtain s1 where s1:
    "pointerdown demo_env (sample_at 1 10 10 0) fresh_listener = Inr s1"
    "contact s1 = Some (newContact demo_env (sample_at 1 10 10 0))"
    "calls s1 =
       calls fresh_listener @ SetPointerCapture (pointerId (sample_at 1 10 10 0))
         # NewContact (sample_at 1 10 10 0)
         # hook_calls ''pointerdown'' (sample_at 1 10 10 0) fresh_listener"
    by blast
  from pointerdown_creates_or_extends
         [of demo_env touching_listener "sample_at 2 50 50 40" "Contact_create (sample_at 1 10 10 0)"] h2
  obtain s2 where s2:
    "pointerdown demo_env (sample_at 2 50 50 40) touching_listener = Inr s2"
    "contact s2 =
       Some (addPointer demo_env (sample_at 2 50 50 40) (Contact_create (sample_at 1 10 10 0)))"
    "calls s2 =
       calls touching_listener @ SetPointerCapture (pointerId (sample_at 2 50 50 40))
         # AddPointer (sample_at 2 50 50 40)
         # hook_calls ''pointerdown'' (sample_at 2 50 50 40) touching_listener"
    by blast
  from h1 h2 s1 s2 show ?thesis
    by (simp add: demo_simps)
qed

section \<open>Move, up and leave samples without an active Contact\<close>

text \<open>
  C6 (as amended). A move, up or leave sample that arrives while no Contact is active is
  ignored: the listener, and with it the Contact and every recognizer, is unchanged, no
  event is dispatched and no error is raised (an up sample still releases the pointer
  capture on the element). While a Contact is active the listener does not look at the
  pointer id: it hands the sample to the Contact and evaluates every recognizer once on
  the result, so what changes and what is dispatched is up to the Contact and the
  recognizers. The registered entries are recognizer objects here, as under C4.
\<close>

theorem samples_without_active_contact_are_ignored:
  "(\<not> contactActive env self \<longrightarrow>
      pointermove env ev self = Inr self \<and>
      pointerleave env ev self = Inr self \<and>
      pointerup env ev self = Inr (record_call (ReleasePointerCapture (pointerId ev)) self)) \<and>
   (supportedGestures self = map Some gs \<and> contact self = Some c \<and> isActive env c \<longrightarrow>
      (\<exists>s'. pointermove env ev self = Inr s' \<and>
         contact s' = Some (onPointerMove env ev c) \<and>
         supportedGestures s' = map Some (evaluated env (Some (onPointerMove env ev c)) gs) \<and>
         dispatched s' =
           dispatched self @ events_of env (Some (onPointerMove env ev c)) gs) \<and>
      (\<exists>s'. pointerup env ev self = Inr s' \<and>
         contact s' = Some (onPointerUp env ev c) \<and>
         supportedGestures s' = map Some (evaluated env (Some (onPointerUp env ev c)) gs) \<and>
         dispatched s' =
           dispatched self @ events_of env (Some (onPointerUp env ev c)) gs) \<and>
      (\<exists>s'. pointerleave env ev self = Inr s' \<and>
         contact s' = Some (onPointerLeave env ev c) \<and>
         supportedGestures s' = map Some (evaluated env (Some (onPointerLeave env ev c)) gs) \<and>
         dispatched s' =
           dispatched self @ events_of env (Some (onPointerLeave env ev c)) gs))"
proof (intro conjI impI)
  assume n: "\<not> contactActive env self"
  then show "pointermove env ev self = Inr self"
    by (auto simp: pointermove_def contactActive_def split: option.splits)
  from n show "pointerleave env ev self = Inr self"
    by (auto simp: pointerleave_def contactActive_def split: option.splits)
  from n show "pointerup env ev self = Inr (record_call (ReleasePointerCapture (pointerId ev)) self)"
    by (auto simp: pointerup_def contactActive_def record_call_def split: option.splits)
next
  assume a: "supportedGestures self = map Some gs \<and> contact self = Some c \<and> isActive env c"
  from pointermove_active [of self gs c env ev] a
  show "\<exists>s'. pointermove env ev self = Inr s' \<and>
         contact s' = Some (onPointerMove env ev c) \<and>
         supportedGestures s' = map Some (evaluated env (Some (onPointerMove env ev c)) gs) \<and>
         dispatched s' =
           dispatched self @ events_of env (Some (onPointerMove env ev c)) gs"
    by blast
  from pointerup_active [of self gs c env ev] a
  show "\<exists>s'. pointerup env ev self = Inr s' \<and>
         contact s' = Some (onPointerUp env ev c) \<and>
         supportedGestures s' = map Some (evaluated env (Some (onPointerUp env ev c)) gs) \<and>
         dispatched s' =
           dispatched self @ events_of env (Some (onPointerUp env ev c)) gs"
    by blast
  from pointerleave_active [of self gs c env ev] a
  show "\<exists>s'. pointerleave env ev self = Inr s' \<and>
         contact s' = Some (onPointerLeave env ev c) \<and>
         supportedGestures s' = map Some (evaluated env (Some (onPointerLeave env ev c)) gs) \<and>
         dispatched s' =
           dispatched self @ events_of env (Some (onPointerLeave env ev c)) gs"
    by blast
qed

text \<open>
  A run for C6: move, leave and up on the fresh listener, and an up of pointer 1 while it
  is down.
\<close>

theorem samples_without_active_contact_are_ignored_witness:
  "\<not> contactActive demo_env fresh_listener \<and>
   pointermove demo_env (sample_at 1 30 10 16) fresh_listener = Inr fresh_listener \<and>
   pointerleave demo_env (sample_at 1 30 10 16) fresh_listener = Inr fresh_listener \<and>
   pointerup demo_env (sample_at 1 30 10 16) fresh_listener =
     Inr (fresh_listener\<lparr>calls := [ReleasePointerCapture 1]\<rparr>) \<and>
   supportedGestures touching_listener =
     map Some (map (\<lambda>k. probe (class_name k)) [Tap, Pan, Pinch, Rotate, TwoFingerPan]) \<and>
   contact touching_listener = Some (Contact_create (sample_at 1 10 10 0)) \<and>
   isActive demo_env (Contact_create (sample_at 1 10 10 0)) \<and>
   (\<exists>s'. pointerup demo_env (sample_at 1 10 10 90) touching_listener = Inr s' \<and>
      contact s' = Some \<lparr>pointerInputs = [], active = False, startTime = 0\<rparr> \<and>
      map (map_option evaluations) (supportedGestures s') = [Some 1, Some 1, Some 1, Some 1, Some 1] \<and>
      map event_type (dispatched s') = [''tap'', ''pan'', ''pinch'', ''rotate'', ''twofingerpan''])"
proof -
  let ?gs = "map (\<lambda>k. probe (class_name k)) [Tap, Pan, Pinch, Rotate, TwoFingerPan]"
  let ?c = "Contact_create (sample_at 1 10 10 0)"
  have h1: "\<not> contactActive demo_env fresh_listener"
    by (simp add: demo_simps)
  have h2: "supportedGestures touching_listener = map Some ?gs \<and>
            contact touching_listener = Some ?c \<and> isActive demo_env ?c"
    by (simp add: demo_simps)
  note t = samples_without_active_contact_are_ignored
  from t [of demo_env fresh_listener "sample_at 1 30 10 16" ?gs ?c] h1
  have a: "pointermove demo_env (sample_at 1 30 10 16) fresh_listener = Inr fresh_listener"
    "pointerleave demo_env (sample_at 1 30 10 16) fresh_listener = Inr fresh_listener"
    "pointerup demo_env (sample_at 1 30 10 16) fresh_listener =
       Inr (record_call (ReleasePointerCapture (pointerId (sample_at 1 30 10 16))) fresh_listener)"
    by blast+
  from t [of demo_env touching_listener "sample_at 1 10 10 90" ?gs ?c] h2
  obtain s' where s':
    "pointerup demo_env (sample_at 1 10 10 90) touching_listener = Inr s'"
    "contact s' = Some (onPointerUp demo_env (sample_at 1 10 10 90) ?c)"
    "supportedGestures s' =
       map Some (evaluated demo_env (Some (onPointerUp demo_env (sample_at 1 10 10 90) ?c)) ?gs)"
    "dispatched s' =
       dispatched touching_listener @
       events_of demo_env (Some (onPointerUp demo_env (sample_at 1 10 10 90) ?c)) ?gs"
    by blast
  from h1 h2 a s' show ?thesis
    by (simp add: demo_simps record_call_def)
qed

text \<open>
  C6, the claim as stated fails: pointer 1 is down and a move sample of pointer 7 arrives.
  The Contact of the spec ignores the unknown pointer, but every recognizer is evaluated:
  each probe's state changes and each dispatches an event.
\<close>

theorem unknown_pointer_move_evaluates_recognizers:
  "contact touching_listener = Some (Contact_create (sample_at 1 10 10 0)) \<and>
   map fst (pointerInputs (Contact_create (sample_at 1 10 10 0))) = [1] \<and>
   pointermove demo_env (sample_at 7 30 10 16) touching_listener \<noteq> Inr touching_listener \<and>
   contact (projr (pointermove demo_env (sample_at 7 30 10 16) touching_listener)) =
     contact touching_listener \<and>
   map (map_option evaluations) (supportedGestures touching_listener) =
     [Some 0, Some 0, Some 0, Some 0, Some 0] \<and>
   map (map_option evaluations)
     (supportedGestures (projr (pointermove demo_env (sample_at 7 30 10 16) touching_listener))) =
     [Some 1, Some 1, Some 1, Some 1, Some 1] \<and>
   dispatched touching_listener = [] \<and>
   map event_type (dispatched (projr (pointermove demo_env (sample_at 7 30 10 16) touching_listener))) =
     [''tap'', ''pan'', ''pinch'', ''rotate'', ''twofingerpan'']"
  by (simp add: demo_simps pointermove_def recognizeGestures_def runHook_def record_call_def)

section \<open>A cancel sample without a Contact\<close>

text \<open>
  C7. The claim is that no sequence of samples makes a handler raise. On the listener
  right after construction, a cancel sample raises a TypeError, because the cancel handler
  calls a method on \<open>self.contact\<close>, which is \<open>null\<close>; a move or a leave sample in the same
  state is ignored by the guard that the cancel handler lacks.
\<close>

theorem cancel_without_contact_throws:
  "PointerListener_new demo_env 0 no_options = Inr fresh_listener \<and>
   contact fresh_listener = None \<and>
   handle demo_env (Cancel (sample_at 1 10 10 0)) fresh_listener =
     Inl (TypeError ''Cannot read properties of null (reading 'onPointerCancel')'') \<and>
   handle demo_env (Move (sample_at 1 10 10 0)) fresh_listener = Inr fresh_listener \<and>
   handle demo_env (Leave (sample_at 1 10 10 0)) fresh_listener = Inr fresh_listener"
  by (simp add: demo_simps PointerListener_new_def ALL_GESTURE_CLASSES_def addTouchListeners_def
      pointercancel_def pointermove_def pointerleave_def record_call_def)

section \<open>Construction\<close>

text \<open>
  C8. The claim is that an entry of \<open>supportedGestures\<close> that is neither a constructor
  function nor an object makes the constructor raise. The constructor does raise for a
  number and for a function that is not a constructor. For \<open>null\<close> it does not:
  \<open>typeof null\<close> is \<open>"object"\<close>, so the entry is pushed and the constructor returns a
  listener; the down sample that follows is handled, and the first move sample raises a
  TypeError in \<open>recognizeGestures\<close>, at recognition time.
\<close>

theorem null_entry_fails_at_recognition:
  "PointerListener_new demo_env 0
     \<lparr>opt_supportedGestures = Some [EntryFunction Tap, EntryOther Number],
      opt_handleTouchEvents = None, opt_keys = []\<rparr> =
     Inl (Error ''unsupported gesture type: number'') \<and>
   PointerListener_new demo_env 0
     \<lparr>opt_supportedGestures = Some [EntryNotConstructor],
      opt_handleTouchEvents = None, opt_keys = []\<rparr> =
     Inl (TypeError ''GestureClass is not a constructor'') \<and>
   PointerListener_new demo_env 0 null_options = Inr null_listener \<and>
   supportedGestures null_listener = [None] \<and>
   handle demo_env (Down (sample_at 1 10 10 0)) null_listener = Inr null_touching_listener \<and>
   handle demo_env (Move (sample_at 1 30 10 16)) null_touching_listener =
     Inl (TypeError ''Cannot read properties of null (reading 'recognize')'')"
  by (simp add: demo_simps PointerListener_new_def addTouchListeners_def
      pointerdown_def pointermove_def recognizeGestures_def runHook_def record_call_def)

text \<open>
  C10. Constructed without a \<open>supportedGestures\<close> option, the listener registers instances
  of exactly Tap, Pan, Pinch, Rotate and TwoFingerPan, in that order; Press is exported by
  the library and is not among them.
\<close>

theorem default_gestures:
  "opt_supportedGestures options = None \<Longrightarrow>
     (\<exists>s. PointerListener_new env element options = Inr s \<and>
        supportedGestures s =
          map (\<lambda>k. Some (instantiate env k element)) [Tap, Pan, Pinch, Rotate, TwoFingerPan]) \<and>
     Press \<in> set exported_gestures \<and>
     Press \<notin> set ALL_GESTURE_CLASSES"
  by (simp add: PointerListener_new_def instantiate_gestures_classes ALL_GESTURE_CLASSES_def
      exported_gestures_def addTouchListeners_def)

text \<open>
  A run for C10: the names of the recognizers of a listener constructed with no options.
\<close>

theorem default_gestures_witness:
  "opt_supportedGestures no_options = None \<and>
   (\<exists>s. PointerListener_new demo_env 0 no_options = Inr s \<and>
      map (map_option probe_name) (supportedGestures s) =
        [Some ''tap'', Some ''pan'', Some ''pinch'', Some ''rotate'', Some ''twofingerpan'']) \<and>
   Press \<in> set exported_gestures \<and>
   Press \<notin> set ALL_GESTURE_CLASSES"
proof -
  have h: "opt_supportedGestures no_options = None"
    by (simp add: no_options_def)
  from default_gestures [OF h, of demo_env 0]
  obtain s where "PointerListener_new demo_env 0 no_options = Inr s"
    and "supportedGestures s =
           map (\<lambda>k. Some (instantiate demo_env k 0)) [Tap, Pan, Pinch, Rotate, TwoFingerPan]"
    and "Press \<in> set exported_gestures" and "Press \<notin> set ALL_GESTURE_CLASSES"
    by blast
  with h show ?thesis
    by (simp add: demo_env_def probe_def)
qed

section \<open>Touch-move notifications\<close>



end
